theory Spec2Isabelle
  imports Complex_Main "HOL-Library.Log_Nat"
begin

section \<open>Data model\<close>

text \<open>
  The provider's itinerary type \<^verbatim>\<open>SerpFlightResult\<close> (serpapi.ts) and the internal
  \<^verbatim>\<open>Deal\<close> and \<^verbatim>\<open>Leg\<close> types (types/index.ts). Field names follow the source; a
  prefix is added where two interfaces share a field name or the name is a HOL constant.
  Prices are whole US dollars (\<^typ>\<open>int\<close>), durations are minutes. An optional field
  (\<^verbatim>\<open>layovers?\<close>, \<^verbatim>\<open>booking_token?\<close>) is an \<^typ>\<open>'a option\<close>, \<open>None\<close> when it is
  \<^verbatim>\<open>undefined\<close>.
\<close>

record airport_stop =
  ap_name :: string
  ap_id :: string
  ap_time :: string

record layover =
  lo_duration :: int
  lo_name :: string
  lo_id :: string

record serp_leg =
  departure_airport :: airport_stop
  arrival_airport :: airport_stop
  leg_duration :: int
  airplane :: string
  leg_airline :: string
  airline_logo :: string
  travel_class :: string
  flight_number :: string
  legroom :: string
  extensions :: "string list"
  layovers :: "layover list option"

record serp_flight =
  flights :: "serp_leg list"
  price :: int
  flight_type :: string
  booking_token :: "string option"

datatype strategy = HiddenCity | Award | Error | Currency | Standard | Throwaway

record leg =
  origin :: string
  destination :: string
  departureDate :: string
  arrivalDate :: string
  airline :: string
  flightNumber :: string
  duration :: int
  stops :: nat

record deal =
  priceUsd :: int
  strategy :: strategy
  riskScore :: int
  bookingLink :: string
  explanation :: string
  legs :: "leg list"

section \<open>The budgeted caller (smartSearch.ts)\<close>

text \<open>
  A provider call is \<^verbatim>\<open>searchGoogleFlights(origin, destination, date, returnDate)\<close>.
  The provider is outside the program: it is a parameter that, given the calls issued
  before and the present call, either throws (\<open>Inl\<close> with the error's message) or
  returns a list of itineraries (\<open>Inr\<close>).

  The module state is the counter \<^verbatim>\<open>apiCallCount\<close>; \<open>providerCalls\<close> records, in order,
  every call that reached the provider, which is what the budget is about. The test of
  the counter and its increment run before the first \<^verbatim>\<open>await\<close>, so on JavaScript's
  single thread they are one step and the invocations of \<^verbatim>\<open>smartSearchFlights\<close>
  are serialised in the order in which they start.
\<close>

type_synonym query = "string \<times> string \<times> string \<times> string option"

type_synonym js_error = string

type_synonym provider = "query list \<Rightarrow> query \<Rightarrow> js_error + serp_flight list"

record search_state =
  apiCallCount :: nat
  providerCalls :: "query list"

definition MAX_API_CALLS_PER_SEARCH :: nat where
  "MAX_API_CALLS_PER_SEARCH = 15"

definition resetApiCallCount :: "search_state \<Rightarrow> search_state" where
  "resetApiCallCount s = s\<lparr>apiCallCount := 0\<rparr>"

definition getApiCallCount :: "search_state \<Rightarrow> nat" where
  "getApiCallCount s = apiCallCount s"

text \<open>The \<^verbatim>\<open>reason\<close> argument is only logged.\<close>

definition smartSearchFlights ::
  "provider \<Rightarrow> string \<Rightarrow> string \<Rightarrow> string \<Rightarrow> string option \<Rightarrow> string \<Rightarrow> search_state
    \<Rightarrow> serp_flight list \<times> search_state" where
  "smartSearchFlights searchGoogleFlights orig dest date returnDate reason s =
     (if apiCallCount s \<ge> MAX_API_CALLS_PER_SEARCH then ([], s)
      else
        (let q = (orig, dest, date, returnDate);
             s' = s\<lparr>apiCallCount := apiCallCount s + 1,
                    providerCalls := providerCalls s @ [q]\<rparr>
         in case searchGoogleFlights (providerCalls s) q of
              Inr results \<Rightarrow> (results, s')
            | Inl err \<Rightarrow> ([], s')))"

text \<open>
  A sequence of invocations, each with its arguments and its reason, run one after the
  other; the result is the list of the values returned and the final state.
\<close>

fun runSearches ::
  "provider \<Rightarrow> (query \<times> string) list \<Rightarrow> search_state
    \<Rightarrow> serp_flight list list \<times> search_state" where
  "runSearches p [] s = ([], s)"
| "runSearches p (((orig, dest, date, returnDate), reason) # rest) s =
     (let (r, s') = smartSearchFlights p orig dest date returnDate reason s;
          (rs, s'') = runSearches p rest s'
      in (r # rs, s''))"

section \<open>Nearby-airport strategy (smartSearch.ts, dealFinder.ts)\<close>

text \<open>
  \<^verbatim>\<open>selectSmartAlternatives\<close> reads the table with \<^verbatim>\<open>allAlternatives[airport] || []\<close>.
  The table is an object literal, so besides its own keys a lookup also finds the
  members inherited from \<^verbatim>\<open>Object.prototype\<close>; these are functions (or, for
  \<^verbatim>\<open>__proto__\<close>, an object), which are truthy and have no \<^verbatim>\<open>slice\<close>. For such a key the
  call \<^verbatim>\<open>alts.slice\<close> throws when \<open>basePrice < 200\<close>, and otherwise the value is
  returned as it is (\<open>NotAnArray\<close>) and the caller's \<^verbatim>\<open>for ... of\<close> throws.
\<close>

definition allAlternatives :: "(string \<times> string list) list" where
  "allAlternatives =
     [(''JFK'', [''EWR'', ''LGA'']),
      (''EWR'', [''JFK'', ''LGA'']),
      (''LGA'', [''JFK'', ''EWR'']),
      (''LAX'', [''BUR'', ''ONT'', ''LGB'', ''SNA'']),
      (''SFO'', [''OAK'', ''SJC'']),
      (''ORD'', [''MDW'']),
      (''IAD'', [''DCA'', ''BWI'']),
      (''FLL'', [''MIA'', ''PBI''])]"

definition objectPrototypeKeys :: "string list" where
  "objectPrototypeKeys =
     [''constructor'', ''hasOwnProperty'', ''isPrototypeOf'', ''propertyIsEnumerable'',
      ''toLocaleString'', ''toString'', ''valueOf'', ''__proto__'',
      ''__defineGetter__'', ''__defineSetter__'', ''__lookupGetter__'', ''__lookupSetter__'']"

datatype alternatives = Codes "string list" | NotAnArray

definition selectSmartAlternatives :: "string \<Rightarrow> int \<Rightarrow> js_error + alternatives" where
  "selectSmartAlternatives airport basePrice =
     (case map_of allAlternatives airport of
        Some alts \<Rightarrow>
          Inr (Codes (if basePrice < 100 then take 1 alts
                      else if basePrice < 200 then take 2 alts
                      else alts))
      | None \<Rightarrow>
          if airport \<in> set objectPrototypeKeys then
            (if basePrice < 200 then Inl ''TypeError: alts.slice is not a function''
             else Inr NotAnArray)
          else Inr (Codes []))"

text \<open>
  Numbers are IEEE double-precision values. Sums, differences and comparisons of whole
  dollar amounts are exact; a quotient or a product is rounded to the nearest number with
  a 53-bit significand, a tie going to the even significand. \<open>toDouble\<close> is that
  rounding on a rational in the normal range, which is where every quotient and product
  of the amounts below lies (overflow, subnormal numbers and \<^verbatim>\<open>NaN\<close> do not arise;
  a division by zero is treated where it can occur).
  For \<open>x \<noteq> 0\<close>, \<open>binaryExponent x\<close> is the integer \<open>e\<close> with
  \<open>pow2 e \<le> \<bar>x\<bar> < pow2 (e + 1)\<close>, found from the bit lengths of numerator and denominator.
\<close>

definition pow2 :: "int \<Rightarrow> rat" where
  "pow2 k = (if k \<ge> 0 then 2 ^ nat k else 1 / 2 ^ nat (- k))"

definition roundHalfEven :: "rat \<Rightarrow> int" where
  "roundHalfEven x =
     (let n = \<lfloor>x\<rfloor>; r = x - of_int n
      in if r < 1 / 2 then n
         else if r > 1 / 2 then n + 1
         else if even n then n else n + 1)"

definition binaryExponent :: "rat \<Rightarrow> int" where
  "binaryExponent x =
     (case quotient_of \<bar>x\<bar> of (p, q) \<Rightarrow>
        (let d = bitlen p - bitlen q
         in if \<bar>x\<bar> \<ge> pow2 d then d else d - 1))"

definition toDouble :: "rat \<Rightarrow> rat" where
  "toDouble x =
     (if x = 0 then 0
      else (let ulp = pow2 (binaryExponent x - 52)
            in of_int (roundHalfEven (x / ulp)) * ulp))"

text \<open>\<^verbatim>\<open>Math.round\<close>: the nearest integer, a half rounded up.\<close>

definition js_round :: "rat \<Rightarrow> int" where
  "js_round x = \<lfloor>x + 1 / 2\<rfloor>"

text \<open>\<^verbatim>\<open>Math.round((a / b) * 100)\<close> for \<open>b \<noteq> 0\<close>.\<close>

definition roundedPercent :: "int \<Rightarrow> int \<Rightarrow> int" where
  "roundedPercent a b = js_round (toDouble (toDouble (of_int a / of_int b) * 100))"

text \<open>The arrow of the route texts, U+2192, as its three UTF-8 bytes.\<close>

definition arrow :: string where
  "arrow = [CHR 0xE2, CHR 0x86, CHR 0x92]"

record deal_opportunity =
  savings :: int
  savingsPercent :: int
  technique :: string
  alternativeRoute :: string
  opp_flights :: "serp_flight list"

text \<open>
  \<^verbatim>\<open>f.flights.length === 1 && (!f.flights[0].layovers || f.flights[0].layovers.length === 0)\<close>,
  the test of a direct flight that the strategy and the data analyser both write out.
\<close>

definition isDirect :: "serp_flight \<Rightarrow> bool" where
  "isDirect f =
     (case flights f of
        [l] \<Rightarrow> (case layovers l of None \<Rightarrow> True | Some ls \<Rightarrow> length ls = 0)
      | _ \<Rightarrow> False)"

text \<open>
  The test \<^verbatim>\<open>flights[0].price < basePrice * 0.85\<close> is taken over the rationals. On whole
  dollar amounts the double-precision product decides the comparison the same way.
\<close>

definition below85 :: "int \<Rightarrow> int \<Rightarrow> bool" where
  "below85 p basePrice = ((of_int p :: rat) < of_int basePrice * (85 / 100))"

text \<open>
  The two loops of \<^verbatim>\<open>findNearbyAirportDeals\<close>. \<^verbatim>\<open>smartSearchFlights\<close> never throws and
  the loop bodies read \<^verbatim>\<open>flights[0].flights[0]\<close> only behind the length test, so the
  \<^verbatim>\<open>catch\<close> branches are not reached.
\<close>

fun checkAltOrigins ::
  "provider \<Rightarrow> string \<Rightarrow> string \<Rightarrow> string \<Rightarrow> int \<Rightarrow> string list
    \<Rightarrow> deal_opportunity list \<times> search_state \<Rightarrow> deal_opportunity list \<times> search_state" where
  "checkAltOrigins p orig dest depDate basePrice [] (deals, s) = (deals, s)"
| "checkAltOrigins p orig dest depDate basePrice (altOrigin # rest) (deals, s) =
     (let (fl, s') = smartSearchFlights p altOrigin dest depDate None
                       (''Nearby: '' @ altOrigin @ arrow @ dest) s;
          deals' =
            (case fl of
               [] \<Rightarrow> deals
             | f0 # _ \<Rightarrow>
                 if below85 (price f0) basePrice then
                   (if isDirect f0 then
                      deals @
                        [\<lparr>savings = basePrice - price f0,
                          savingsPercent =
                            roundedPercent (basePrice - price f0) basePrice,
                          technique = ''nearby-origin'',
                          alternativeRoute =
                            altOrigin @ '' '' @ arrow @ '' '' @ dest
                              @ '' (instead of '' @ orig @ '')'',
                          opp_flights = [f0]\<rparr>]
                    else deals)
                 else deals)
      in checkAltOrigins p orig dest depDate basePrice rest (deals', s'))"

fun checkAltDests ::
  "provider \<Rightarrow> string \<Rightarrow> string \<Rightarrow> string \<Rightarrow> int \<Rightarrow> string list
    \<Rightarrow> deal_opportunity list \<times> search_state \<Rightarrow> deal_opportunity list \<times> search_state" where
  "checkAltDests p orig dest depDate basePrice [] (deals, s) = (deals, s)"
| "checkAltDests p orig dest depDate basePrice (altDest # rest) (deals, s) =
     (let (fl, s') = smartSearchFlights p orig altDest depDate None
                       (''Nearby: '' @ orig @ arrow @ altDest) s;
          deals' =
            (case fl of
               [] \<Rightarrow> deals
             | f0 # _ \<Rightarrow>
                 if below85 (price f0) basePrice then
                   (if isDirect f0 then
                      deals @
                        [\<lparr>savings = basePrice - price f0,
                          savingsPercent =
                            roundedPercent (basePrice - price f0) basePrice,
                          technique = ''nearby-destination'',
                          alternativeRoute =
                            orig @ '' '' @ arrow @ '' '' @ altDest
                              @ '' (instead of '' @ dest @ '')'',
                          opp_flights = [f0]\<rparr>]
                    else deals)
                 else deals)
      in checkAltDests p orig dest depDate basePrice rest (deals', s'))"

text \<open>
  The promise of \<^verbatim>\<open>findNearbyAirportDeals\<close> either resolves with the deals (\<open>Inr\<close>) or
  rejects (\<open>Inl\<close>); the state reached is returned in both cases.
\<close>

definition findNearbyAirportDeals ::
  "provider \<Rightarrow> string \<Rightarrow> string \<Rightarrow> string \<Rightarrow> int \<Rightarrow> search_state
    \<Rightarrow> (js_error + deal_opportunity list) \<times> search_state" where
  "findNearbyAirportDeals p orig dest depDate basePrice s =
     (if basePrice < 70 then (Inr [], s)
      else
        case selectSmartAlternatives orig basePrice of
          Inl e \<Rightarrow> (Inl e, s)
        | Inr originAlternatives \<Rightarrow>
            (case selectSmartAlternatives dest basePrice of
               Inl e \<Rightarrow> (Inl e, s)
             | Inr destAlternatives \<Rightarrow>
                 (case originAlternatives of
                    NotAnArray \<Rightarrow> (Inl ''TypeError: originAlternatives is not iterable'', s)
                  | Codes oas \<Rightarrow>
                      (let (deals1, s1) =
                             checkAltOrigins p orig dest depDate basePrice oas ([], s)
                       in case destAlternatives of
                            NotAnArray \<Rightarrow>
                              (Inl ''TypeError: destAlternatives is not iterable'', s1)
                          | Codes das \<Rightarrow>
                              (let (deals2, s2) =
                                     checkAltDests p orig dest depDate basePrice das
                                       (deals1, s1)
                               in (Inr deals2, s2))))))"

section \<open>Hidden-city search (serpapi.ts)\<close>

text \<open>
  \<^verbatim>\<open>searchHiddenCityFlights\<close> calls \<^verbatim>\<open>searchGoogleFlights\<close> directly, outside the
  budget. The five searches start in the order of the list (each runs up to its
  \<^verbatim>\<open>fetch\<close> as it is created), \<^verbatim>\<open>Promise.allSettled\<close> keeps that order, and a search
  that rejects or finds nothing contributes no entry.
\<close>

record hidden_city_result =
  beyondDestination :: string
  hc_flights :: "serp_flight list"

definition majorHubs :: "string list" where
  "majorHubs = [''LAX'', ''JFK'', ''SFO'', ''ORD'', ''ATL'', ''DEN'', ''DFW'', ''SEA'',
                ''MIA'', ''LHR'', ''CDG'', ''NRT'']"

text \<open>\<^verbatim>\<open>flight.flights.some(leg => leg.layovers?.some(layover => layover.id === destination))\<close>\<close>

definition hasLayoverAt :: "string \<Rightarrow> serp_flight \<Rightarrow> bool" where
  "hasLayoverAt dest flight =
     list_ex (\<lambda>l. case layovers l of
                    None \<Rightarrow> False
                  | Some ls \<Rightarrow> list_ex (\<lambda>lo. lo_id lo = dest) ls)
       (flights flight)"

fun hiddenCitySearches ::
  "provider \<Rightarrow> string \<Rightarrow> string \<Rightarrow> string \<Rightarrow> string list \<Rightarrow> query list
    \<Rightarrow> hidden_city_result option list" where
  "hiddenCitySearches p orig dest depDate [] issued = []"
| "hiddenCitySearches p orig dest depDate (beyondDest # rest) issued =
     (let q = (orig, beyondDest, depDate, None);
          settled =
            (case p issued q of
               Inl err \<Rightarrow> None
             | Inr fl \<Rightarrow>
                 (let hiddenCityFlights = filter (hasLayoverAt dest) fl
                  in if length hiddenCityFlights > 0
                     then Some \<lparr>beyondDestination = beyondDest, hc_flights = hiddenCityFlights\<rparr>
                     else None))
      in settled # hiddenCitySearches p orig dest depDate rest (issued @ [q]))"

definition searchHiddenCityFlights ::
  "provider \<Rightarrow> string \<Rightarrow> string \<Rightarrow> string \<Rightarrow> hidden_city_result list" where
  "searchHiddenCityFlights p orig dest depDate =
     (let beyondDestinations = filter (\<lambda>hub. hub \<noteq> orig \<and> hub \<noteq> dest) majorHubs
      in List.map_filter (\<lambda>r. r)
           (hiddenCitySearches p orig dest depDate (take 5 beyondDestinations) []))"

section \<open>Data analyser (dataAnalyzer.ts)\<close>

text \<open>
  Two services of the JavaScript runtime are parameters of the model.
  \<open>getHours\<close> stands for \<^verbatim>\<open>new Date(s).getHours()\<close>: the local hour of a timestamp,
  \<open>None\<close> when the date is invalid and the hour is \<^verbatim>\<open>NaN\<close> (every comparison with
  \<^verbatim>\<open>NaN\<close> is false). \<open>render\<close> stands for the formatting of an explanation text,
  \<^verbatim>\<open>toLocaleTimeString\<close> included, from the template chosen and the values put into it;
  these are kept as an \<open>explanation_note\<close>.
\<close>

datatype explanation_note =
    RedEyeSave string int
  | RedEyeOption string
  | EarlyBirdSave string int
  | EarlyDeparture string
  | LayoverSave string int int bool
  | LayoverVia string int
  | BudgetSave string int
  | BudgetOption string
  | ConnectingSave nat int "int option"

record analysis_result =
  redEyeDeals :: "deal list"
  layoverDeals :: "deal list"
  budgetAirlineDeals :: "deal list"
  connectingDeals :: "deal list"
  timeBasedDeals :: "deal list"

definition emptyAnalysis :: analysis_result where
  "emptyAnalysis =
     \<lparr>redEyeDeals = [], layoverDeals = [], budgetAirlineDeals = [],
      connectingDeals = [], timeBasedDeals = []\<rparr>"

text \<open>\<^verbatim>\<open>createDeal\<close> does not use its origin, destination and date arguments.\<close>

definition createDeal ::
  "serp_flight \<Rightarrow> string \<Rightarrow> string \<Rightarrow> string \<Rightarrow> string \<Rightarrow> int \<Rightarrow> deal" where
  "createDeal flight orig dest depDate expl risk =
     \<lparr>priceUsd = price flight,
      strategy = Standard,
      riskScore = risk,
      bookingLink =
        ''https://www.google.com/travel/flights/search?tfs=CBwQAhopag0IAhIJL20vMDJfMjg2EgoyMDI2LTA4LTI0cgwIAxIIL20vMGZucGcaKWoMCAMSCC9tLzBmbnBnEgoyMDI2LTA4LTI0cg0IAhIJL20vMDJfMjg2QAFIAXABggELCP___________wGYAQE'',
      explanation = expl,
      legs =
        map (\<lambda>l. \<lparr>origin = ap_id (departure_airport l),
                   destination = ap_id (arrival_airport l),
                   departureDate = ap_time (departure_airport l),
                   arrivalDate = ap_time (arrival_airport l),
                   airline = leg_airline l,
                   flightNumber = flight_number l,
                   duration = leg_duration l,
                   stops = (case layovers l of None \<Rightarrow> 0 | Some ls \<Rightarrow> length ls)\<rparr>)
          (flights flight)\<rparr>"

text \<open>\<^verbatim>\<open>directFlights[0]?.price || basePrice\<close>: a price of 0 is falsy.\<close>

definition cheapestDirectPrice :: "serp_flight list \<Rightarrow> int \<Rightarrow> int" where
  "cheapestDirectPrice fs basePrice =
     (case filter isDirect fs of
        [] \<Rightarrow> basePrice
      | f # _ \<Rightarrow> if price f = 0 then basePrice else price f)"

definition avgPrice :: "serp_flight list \<Rightarrow> rat" where
  "avgPrice fs =
     toDouble (of_int (sum_list (map price (take 5 fs))) / of_nat (min 5 (length fs)))"

definition budgetAirlines :: "string list" where
  "budgetAirlines = [''Spirit'', ''Frontier'', ''Allegiant'', ''JetBlue'', ''Southwest'']"

text \<open>\<^verbatim>\<open>s.includes(sub)\<close>: \<open>sub\<close> occurs in \<open>s\<close> at some position.\<close>

definition includes_str :: "string \<Rightarrow> string \<Rightarrow> bool" where
  "includes_str s sub = list_ex (\<lambda>i. take (length sub) (drop i s) = sub) [0..<Suc (length s)]"

definition firstLayover :: "serp_leg \<Rightarrow> layover option" where
  "firstLayover l = (case layovers l of Some (lo # _) \<Rightarrow> Some lo | _ \<Rightarrow> None)"

text \<open>\<^verbatim>\<open>a || b\<close> on an optional string and on an optional number.\<close>

definition orElseStr :: "string option \<Rightarrow> string \<Rightarrow> string" where
  "orElseStr a b = (case a of Some v \<Rightarrow> if v = [] then b else v | None \<Rightarrow> b)"

definition orElseNum :: "int option \<Rightarrow> int \<Rightarrow> int" where
  "orElseNum a b = (case a of Some v \<Rightarrow> if v = 0 then b else v | None \<Rightarrow> b)"

text \<open>The body of the loop over the flights, on the set of keys seen and the result.\<close>

definition analyzeFlight ::
  "(string \<Rightarrow> nat option) \<Rightarrow> (explanation_note \<Rightarrow> string) \<Rightarrow> string \<Rightarrow> string \<Rightarrow> string \<Rightarrow> int \<Rightarrow> rat
    \<Rightarrow> serp_flight \<Rightarrow> string set \<times> analysis_result \<Rightarrow> string set \<times> analysis_result" where
  "analyzeFlight getHours render orig dest depDate cheapestDirect avg flight st =
     (case st of (seenFlights, result) \<Rightarrow>
      (case flights flight of
         [] \<Rightarrow> (seenFlights, result)
       | firstLeg # moreLegs \<Rightarrow>
          (let depTime = ap_time (departure_airport firstLeg);
               flightKey = leg_airline firstLeg @ ''-'' @ flight_number firstLeg @ ''-'' @ depTime
           in if flightKey \<in> seenFlights then (seenFlights, result)
              else
               (let sav = max 0 (toDouble (avg - of_int (price flight)));
                    priceDiff = cheapestDirect - price flight;
                    hour = getHours depTime;
                    r1 =
                      (if (case hour of None \<Rightarrow> False | Some h \<Rightarrow> h \<ge> 22 \<or> h \<le> 5) then
                         result\<lparr>redEyeDeals := redEyeDeals result @
                           [createDeal flight orig dest depDate
                              (render (if sav > 5 then RedEyeSave depTime (js_round sav)
                                       else RedEyeOption depTime)) 5]\<rparr>
                       else if (case hour of None \<Rightarrow> False | Some h \<Rightarrow> h \<ge> 6 \<and> h \<le> 8) then
                         result\<lparr>timeBasedDeals := timeBasedDeals result @
                           [createDeal flight orig dest depDate
                              (render (if sav > 5 then EarlyBirdSave depTime (js_round sav)
                                       else EarlyDeparture depTime)) 5]\<rparr>
                       else result);
                    hasLayover =
                      (length (flights flight) > 1 \<or>
                       (case layovers firstLeg of None \<Rightarrow> 0 | Some ls \<Rightarrow> length ls) > 0);
                    r2 =
                      (if hasLayover then
                         (let layoverAirport =
                                orElseStr (map_option lo_id (firstLayover firstLeg))
                                  (orElseStr
                                     (case moreLegs of [] \<Rightarrow> None
                                      | l2 # _ \<Rightarrow> Some (ap_id (departure_airport l2)))
                                     ''Hub'');
                              layoverDuration =
                                orElseNum (map_option lo_duration (firstLayover firstLeg)) 120;
                              worthIt = (priceDiff > 30 \<and> layoverDuration < 240);
                              hours = js_round (toDouble (of_int layoverDuration / 60))
                          in r1\<lparr>layoverDeals := layoverDeals r1 @
                               [createDeal flight orig dest depDate
                                  (render (if priceDiff > 10
                                           then LayoverSave layoverAirport hours priceDiff worthIt
                                           else LayoverVia layoverAirport hours)) 10]\<rparr>)
                       else r1);
                    isBudget = list_ex (\<lambda>ba. includes_str (leg_airline firstLeg) ba) budgetAirlines;
                    r3 =
                      (if isBudget then
                         r2\<lparr>budgetAirlineDeals := budgetAirlineDeals r2 @
                           [createDeal flight orig dest depDate
                              (render (if priceDiff > 10
                                       then BudgetSave (leg_airline firstLeg) priceDiff
                                       else BudgetOption (leg_airline firstLeg))) 15]\<rparr>
                       else r2);
                    r4 =
                      (if hasLayover \<and> priceDiff > 20 then
                         (let pct =
                                (if cheapestDirect = 0 then None
                                 else Some (roundedPercent priceDiff cheapestDirect))
                          in r3\<lparr>connectingDeals := connectingDeals r3 @
                               [createDeal flight orig dest depDate
                                  (render (ConnectingSave (length (flights flight)) priceDiff pct))
                                  10]\<rparr>)
                       else r3)
                in (insert flightKey seenFlights, r4)))))"

text \<open>\<^verbatim>\<open>xs.sort((a, b) => a.priceUsd - b.priceUsd)\<close>: a stable sort by price.\<close>

definition sortByPrice :: "deal list \<Rightarrow> deal list" where
  "sortByPrice ds = sort_key priceUsd ds"

definition analyzeFlightData ::
  "(string \<Rightarrow> nat option) \<Rightarrow> (explanation_note \<Rightarrow> string) \<Rightarrow> serp_flight list \<Rightarrow> string \<Rightarrow> string \<Rightarrow> string
    \<Rightarrow> analysis_result" where
  "analyzeFlightData getHours render fs orig dest depDate =
     (case fs of
        [] \<Rightarrow> emptyAnalysis
      | f0 # _ \<Rightarrow>
          (let basePrice = price f0;
               cheapestDirect = cheapestDirectPrice fs basePrice;
               avg = avgPrice fs;
               result =
                 snd (fold (analyzeFlight getHours render orig dest depDate cheapestDirect avg)
                        fs ({}, emptyAnalysis))
           in \<lparr>redEyeDeals = sortByPrice (redEyeDeals result),
               layoverDeals = sortByPrice (layoverDeals result),
               budgetAirlineDeals = sortByPrice (budgetAirlineDeals result),
               connectingDeals = sortByPrice (connectingDeals result),
               timeBasedDeals = sortByPrice (timeBasedDeals result)\<rparr>))"

section \<open>Curator (resultGrouper.ts)\<close>

record by_time =
  morning :: "deal list"
  afternoon :: "deal list"
  evening :: "deal list"
  overnight :: "deal list"

text \<open>
  The two \<^verbatim>\<open>Map\<close>s keep their keys in insertion order, which the selection iterates,
  so they are association lists.
\<close>

record grouped_results =
  bestOverall :: "deal option"
  cheapestByTime :: by_time
  byAirline :: "(string \<times> deal list) list"
  byStrategy :: "(strategy \<times> deal list) list"
  specialDeals :: "deal list"
  topDeals :: "deal list"

definition emptyByTime :: by_time where
  "emptyByTime = \<lparr>morning = [], afternoon = [], evening = [], overnight = []\<rparr>"

text \<open>
  \<^verbatim>\<open>getFlightKey\<close>: with no first leg each \<^verbatim>\<open>deal.legs[0]?.field\<close> is \<^verbatim>\<open>undefined\<close>
  and the template prints it as such.
\<close>

definition getFlightKey :: "deal \<Rightarrow> string" where
  "getFlightKey d =
     (case legs d of
        [] \<Rightarrow> ''undefined-undefined-undefined''
      | l # _ \<Rightarrow> airline l @ ''-'' @ flightNumber l @ ''-'' @ departureDate l)"

text \<open>The loop body of the grouping by time of day; an hour of \<^verbatim>\<open>NaN\<close> ends in the last branch.\<close>

definition groupByTime :: "(string \<Rightarrow> nat option) \<Rightarrow> deal \<Rightarrow> by_time \<Rightarrow> by_time" where
  "groupByTime getHours d t =
     (let timeStr = (case legs d of [] \<Rightarrow> [] | l # _ \<Rightarrow> departureDate l);
          hour = getHours timeStr
      in if (case hour of None \<Rightarrow> False | Some h \<Rightarrow> h \<ge> 6 \<and> h < 12) then
           (if length (morning t) < 2 then t\<lparr>morning := morning t @ [d]\<rparr> else t)
         else if (case hour of None \<Rightarrow> False | Some h \<Rightarrow> h \<ge> 12 \<and> h < 18) then
           (if length (afternoon t) < 2 then t\<lparr>afternoon := afternoon t @ [d]\<rparr> else t)
         else if (case hour of None \<Rightarrow> False | Some h \<Rightarrow> h \<ge> 18 \<and> h < 24) then
           (if length (evening t) < 2 then t\<lparr>evening := evening t @ [d]\<rparr> else t)
         else
           (if length (overnight t) < 2 then t\<lparr>overnight := overnight t @ [d]\<rparr> else t))"

text \<open>The loop bodies of the grouping by airline (two per airline) and by strategy.\<close>

fun addToAirline :: "string \<Rightarrow> deal \<Rightarrow> (string \<times> deal list) list \<Rightarrow> (string \<times> deal list) list" where
  "addToAirline a d [] = [(a, [d])]"
| "addToAirline a d ((k, ds) # rest) =
     (if k = a then (k, if length ds < 2 then ds @ [d] else ds) # rest
      else (k, ds) # addToAirline a d rest)"

definition groupByAirline :: "deal \<Rightarrow> (string \<times> deal list) list \<Rightarrow> (string \<times> deal list) list" where
  "groupByAirline d m =
     addToAirline (orElseStr (case legs d of [] \<Rightarrow> None | l # _ \<Rightarrow> Some (airline l)) ''Unknown'')
       d m"

fun groupByStrategy :: "deal \<Rightarrow> (strategy \<times> deal list) list \<Rightarrow> (strategy \<times> deal list) list" where
  "groupByStrategy d [] = [(strategy d, [d])]"
| "groupByStrategy d ((k, ds) # rest) =
     (if k = strategy d then (k, ds @ [d]) # rest else (k, ds) # groupByStrategy d rest)"

text \<open>
  The selection works on \<^verbatim>\<open>topDeals\<close> and the set \<^verbatim>\<open>addedFlights\<close> of keys.
  Step 2, the loop body over the special deals:
\<close>

definition addSpecial :: "deal \<Rightarrow> deal list \<times> string set \<Rightarrow> deal list \<times> string set" where
  "addSpecial d st =
     (case st of (tops, addedFlights) \<Rightarrow>
        (let key = getFlightKey d
         in if key \<notin> addedFlights \<and> length tops < 30
            then (tops @ [d], insert key addedFlights)
            else (tops, addedFlights)))"

text \<open>
  Steps 3 and 4, the inner loop
  \<^verbatim>\<open>for (let i = 0; i < 2 && i < group.length && topDeals.length < 40; i++)\<close>:
  it runs over the first two deals of the group and stops when 40 deals are selected.
\<close>

fun addWhileBelow40 :: "deal list \<Rightarrow> deal list \<times> string set \<Rightarrow> deal list \<times> string set" where
  "addWhileBelow40 [] (tops, addedFlights) = (tops, addedFlights)"
| "addWhileBelow40 (d # ds) (tops, addedFlights) =
     (if length tops < 40 then
        (let key = getFlightKey d
         in if key \<notin> addedFlights
            then addWhileBelow40 ds (tops @ [d], insert key addedFlights)
            else addWhileBelow40 ds (tops, addedFlights))
      else (tops, addedFlights))"

definition addBestOf :: "deal list \<Rightarrow> deal list \<times> string set \<Rightarrow> deal list \<times> string set" where
  "addBestOf period st = addWhileBelow40 (take 2 period) st"

text \<open>Step 5, the loop over the deals sorted by price, which breaks at 35 deals.\<close>

definition pricePointOf :: "deal \<Rightarrow> int" where
  "pricePointOf d = (priceUsd d div 10) * 10"

fun fillPriceVariety ::
  "deal list \<Rightarrow> deal list \<times> string set \<times> int set \<Rightarrow> deal list \<times> string set \<times> int set" where
  "fillPriceVariety [] (tops, addedFlights, pricesSeen) = (tops, addedFlights, pricesSeen)"
| "fillPriceVariety (d # ds) (tops, addedFlights, pricesSeen) =
     (if length tops \<ge> 35 then (tops, addedFlights, pricesSeen)
      else
        (let pricePoint = pricePointOf d;
             key = getFlightKey d
         in if pricePoint \<notin> pricesSeen \<and> key \<notin> addedFlights
            then fillPriceVariety ds
                   (tops @ [d], insert key addedFlights, insert pricePoint pricesSeen)
            else fillPriceVariety ds (tops, addedFlights, pricesSeen)))"

text \<open>The selection: steps 1 to 5 and the final sort.\<close>

definition curate :: "deal list \<Rightarrow> by_time \<Rightarrow> (string \<times> deal list) list \<Rightarrow> deal list \<Rightarrow> deal list" where
  "curate sortedDeals byTime airlines specials =
     (let st1 = (case sortedDeals of [] \<Rightarrow> ([], {}) | s0 # _ \<Rightarrow> ([s0], {getFlightKey s0}));
          st2 = fold addSpecial specials st1;
          st3 = fold addBestOf [morning byTime, afternoon byTime, evening byTime, overnight byTime] st2;
          st4 = fold addBestOf (map snd airlines) st3;
          pricesSeen = set (map pricePointOf (fst st4));
          st5 = fillPriceVariety sortedDeals (fst st4, snd st4, pricesSeen)
      in sortByPrice (fst st5))"

definition groupAndCurateResults :: "(string \<Rightarrow> nat option) \<Rightarrow> deal list \<Rightarrow> grouped_results" where
  "groupAndCurateResults getHours deals =
     (if length deals = 0 then
        \<lparr>bestOverall = None, cheapestByTime = emptyByTime, byAirline = [], byStrategy = [],
         specialDeals = [], topDeals = []\<rparr>
      else
        (let sortedDeals = sortByPrice deals;
             byTime = fold (groupByTime getHours) deals emptyByTime;
             airlines = fold groupByAirline deals [];
             strategies = fold groupByStrategy deals [];
             specials = filter (\<lambda>d. strategy d \<noteq> Standard) deals
         in \<lparr>bestOverall = (case sortedDeals of [] \<Rightarrow> None | s0 # _ \<Rightarrow> Some s0),
             cheapestByTime = byTime,
             byAirline = airlines,
             byStrategy = strategies,
             specialDeals = specials,
             topDeals = curate sortedDeals byTime airlines specials\<rparr>))"

section \<open>Notions of the specification and invariants\<close>

text \<open>
  The deduplication key as the specification words it: the triple
  \<^verbatim>\<open>(legs[0].airline, legs[0].flightNumber, legs[0].departureDate)\<close>, absent when the deal
  has no leg. The source's \<^verbatim>\<open>getFlightKey\<close> prints this triple into one string.
\<close>

definition dedupKey :: "deal \<Rightarrow> (string \<times> string \<times> string) option" where
  "dedupKey d =
     (case legs d of [] \<Rightarrow> None | l # _ \<Rightarrow> Some (airline l, flightNumber l, departureDate l))"

text \<open>
  The invariant of the selection loops: the selected deals have pairwise different keys,
  \<^verbatim>\<open>addedFlights\<close> is exactly the set of their keys, and there are at most 40 of them.
\<close>

definition selInv :: "deal list \<times> string set \<Rightarrow> bool" where
  "selInv st =
     (distinct (map getFlightKey (fst st)) \<and> snd st = set (map getFlightKey (fst st))
      \<and> length (fst st) \<le> 40)"

text \<open>
  The deals of an analysis, category after category, and the property that every deal
  made by \<^verbatim>\<open>createDeal\<close> from a flight with a first leg has.
\<close>

definition analysisDeals :: "analysis_result \<Rightarrow> deal list" where
  "analysisDeals r =
     redEyeDeals r @ layoverDeals r @ budgetAirlineDeals r @ connectingDeals r @ timeBasedDeals r"

definition analyzerDealOk :: "deal \<Rightarrow> bool" where
  "analyzerDealOk d = (strategy d = Standard \<and> riskScore d \<in> {5, 10, 15} \<and> legs d \<noteq> [])"

section \<open>Example inputs\<close>

text \<open>Concrete itineraries, providers and states on which the theorems are instantiated.\<close>

definition stopAt :: "string \<Rightarrow> string \<Rightarrow> airport_stop" where
  "stopAt code t = \<lparr>ap_name = code, ap_id = code, ap_time = t\<rparr>"

definition exLeg ::
  "string \<Rightarrow> string \<Rightarrow> string \<Rightarrow> string \<Rightarrow> string \<Rightarrow> layover list option \<Rightarrow> serp_leg" where
  "exLeg frm to t al fn los =
     \<lparr>departure_airport = stopAt frm t, arrival_airport = stopAt to t, leg_duration = 120,
      airplane = ''A320'', leg_airline = al, airline_logo = [], travel_class = ''Economy'',
      flight_number = fn, legroom = [], extensions = [], layovers = los\<rparr>"

definition exFlight :: "serp_leg list \<Rightarrow> int \<Rightarrow> serp_flight" where
  "exFlight ls p = \<lparr>flights = ls, price = p, flight_type = ''One way'', booking_token = None\<rparr>"

definition exDirect :: "string \<Rightarrow> string \<Rightarrow> int \<Rightarrow> serp_flight" where
  "exDirect frm to p = exFlight [exLeg frm to ''2026-08-24T07:00'' ''United'' ''UA 1'' None] p"

text \<open>A provider that answers every call with one direct flight at $100, and one that always throws.\<close>

definition exProvider :: provider where
  "exProvider issued q = Inr [exDirect (fst q) (fst (snd q)) 100]"

definition exFailing :: provider where
  "exFailing issued q = Inl ''Error: SerpAPI error: 500''"

definition exCalls :: "(query \<times> string) list" where
  "exCalls = replicate 17 ((''JFK'', ''LAX'', ''2026-08-24'', None), ''search'')"

definition exStart :: search_state where
  "exStart = \<lparr>apiCallCount = 9, providerCalls = []\<rparr>"

text \<open>
  An instance of \<open>getHours\<close> for the examples: the hour of a local timestamp written
  \<^verbatim>\<open>YYYY-MM-DDTHH:MM\<close>, which is what \<^verbatim>\<open>new Date(s).getHours()\<close> returns for it; any
  other text, the empty one included, is taken as an invalid date.
\<close>

definition digitVal :: "char \<Rightarrow> nat option" where
  "digitVal c = (let n = (of_char c :: nat) in if 48 \<le> n \<and> n \<le> 57 then Some (n - 48) else None)"

definition isoHour :: "string \<Rightarrow> nat option" where
  "isoHour s =
     (if length s = 16 then
        (case (digitVal (s ! 11), digitVal (s ! 12)) of
           (Some a, Some b) \<Rightarrow> if 10 * a + b < 24 then Some (10 * a + b) else None
         | _ \<Rightarrow> None)
      else None)"

text \<open>Six standard deals, two each in the morning, the afternoon and the evening, followed by
  thirty hidden-city deals at $150 with pairwise different flight numbers.\<close>

definition exLegAt :: "string \<Rightarrow> string \<Rightarrow> leg" where
  "exLegAt fn t =
     \<lparr>origin = ''JFK'', destination = ''LAX'', departureDate = t, arrivalDate = t,
      airline = ''United'', flightNumber = fn, duration = 300, stops = 0\<rparr>"

definition exDeal :: "strategy \<Rightarrow> int \<Rightarrow> string \<Rightarrow> string \<Rightarrow> deal" where
  "exDeal st p fn t =
     \<lparr>priceUsd = p, strategy = st, riskScore = 10, bookingLink = [], explanation = [],
      legs = [exLegAt fn t]\<rparr>"

definition exManyDeals :: "deal list" where
  "exManyDeals =
     [exDeal Standard 200 ''U1'' ''2026-08-24T07:00'',
      exDeal Standard 200 ''U2'' ''2026-08-24T08:00'',
      exDeal Standard 200 ''U3'' ''2026-08-24T13:00'',
      exDeal Standard 200 ''U4'' ''2026-08-24T14:00'',
      exDeal Standard 200 ''U5'' ''2026-08-24T19:00'',
      exDeal Standard 200 ''U6'' ''2026-08-24T20:00'']
     @ map (\<lambda>fn. exDeal HiddenCity 150 fn ''2026-08-24T02:00'')
         [''H01'', ''H02'', ''H03'', ''H04'', ''H05'', ''H06'', ''H07'', ''H08'', ''H09'', ''H10'', ''H11'', ''H12'', ''H13'', ''H14'', ''H15'', ''H16'', ''H17'', ''H18'', ''H19'', ''H20'', ''H21'', ''H22'', ''H23'', ''H24'', ''H25'', ''H26'', ''H27'', ''H28'', ''H29'', ''H30'']"

text \<open>
  Nine standard deals, two in each of the four time periods and a third morning one,
  followed by 32 hidden-city deals, each of an airline of its own; and a short list in
  which a standard and a hidden-city deal have the same key.
\<close>

definition exDealOf :: "strategy \<Rightarrow> int \<Rightarrow> string \<Rightarrow> string \<Rightarrow> string \<Rightarrow> deal" where
  "exDealOf st p al fn t =
     \<lparr>priceUsd = p, strategy = st, riskScore = 10, bookingLink = [], explanation = [],
      legs = [(exLegAt fn t)\<lparr>airline := al\<rparr>]\<rparr>"

definition exFortyDeals :: "deal list" where
  "exFortyDeals =
     [exDeal Standard 200 ''U1'' ''2026-08-24T07:00'',
      exDeal Standard 200 ''U2'' ''2026-08-24T08:00'',
      exDeal Standard 200 ''U3'' ''2026-08-24T13:00'',
      exDeal Standard 200 ''U4'' ''2026-08-24T14:00'',
      exDeal Standard 200 ''U5'' ''2026-08-24T19:00'',
      exDeal Standard 200 ''U6'' ''2026-08-24T20:00'',
      exDeal Standard 200 ''U7'' ''2026-08-24T02:00'',
      exDeal Standard 200 ''U8'' ''2026-08-24T03:00'',
      exDeal Standard 200 ''U9'' ''2026-08-24T09:00'']
     @ map (\<lambda>fn. exDealOf HiddenCity 150 fn fn ''2026-08-24T04:00'')
         [''H01'', ''H02'', ''H03'', ''H04'', ''H05'', ''H06'', ''H07'', ''H08'', ''H09'', ''H10'', ''H11'', ''H12'', ''H13'', ''H14'', ''H15'', ''H16'', ''H17'', ''H18'', ''H19'', ''H20'', ''H21'', ''H22'', ''H23'', ''H24'', ''H25'', ''H26'', ''H27'', ''H28'', ''H29'', ''H30'', ''H31'', ''H32'']"

definition exMixed :: "deal list" where
  "exMixed =
     [exDeal Standard 200 ''U1'' ''2026-08-24T07:00'',
      exDeal HiddenCity 180 ''U1'' ''2026-08-24T07:00'',
      exDealOf Standard 150 ''Delta'' ''D1'' ''2026-08-24T13:00'']"

text \<open>
  A connecting itinerary (one leg with a layover), and a provider for the nearby-airport
  example: from EWR a direct flight at $240 comes first, from LGA only a connecting
  flight, to BUR nothing, the call to ONT throws, and every other route has a direct
  flight at $290.
\<close>

definition exConnecting :: "string \<Rightarrow> string \<Rightarrow> string \<Rightarrow> int \<Rightarrow> serp_flight" where
  "exConnecting frm via to p =
     exFlight
       [exLeg frm to ''2026-08-24T09:00'' ''Delta'' ''DL 7''
          (Some [\<lparr>lo_duration = 95, lo_name = via, lo_id = via\<rparr>])] p"

definition exNearbyProvider :: provider where
  "exNearbyProvider issued q =
     (case q of (frm, to, date, ret) \<Rightarrow>
        if frm = ''EWR'' then Inr [exDirect frm to 240, exDirect frm to 180]
        else if frm = ''LGA'' then Inr [exConnecting frm ''ORD'' to 150]
        else if to = ''BUR'' then Inr []
        else if to = ''ONT'' then Inl ''Error: timeout''
        else Inr [exDirect frm to 290])"

definition exFresh :: search_state where
  "exFresh = \<lparr>apiCallCount = 0, providerCalls = []\<rparr>"

definition exNearbyDeal :: deal_opportunity where
  "exNearbyDeal =
     \<lparr>savings = 60, savingsPercent = 20, technique = ''nearby-origin'',
      alternativeRoute = ''EWR '' @ arrow @ '' LAX (instead of JFK)'',
      opp_flights = [exDirect ''EWR'' ''LAX'' 240]\<rparr>"

text \<open>
  A provider for the hidden-city example: to SFO an itinerary with a layover at LAX and a
  direct one, the call to ORD throws, to ATL a layover elsewhere, nothing to the others.
\<close>

definition exHiddenProvider :: provider where
  "exHiddenProvider issued q =
     (case q of (frm, to, date, ret) \<Rightarrow>
        if to = ''SFO'' then Inr [exConnecting frm ''LAX'' to 220, exDirect frm to 310]
        else if to = ''ORD'' then Inl ''Error: timeout''
        else if to = ''ATL'' then Inr [exConnecting frm ''CLT'' to 140]
        else Inr [])"

definition exHiddenResult :: hidden_city_result where
  "exHiddenResult =
     \<lparr>beyondDestination = ''SFO'', hc_flights = [exConnecting ''JFK'' ''LAX'' ''SFO'' 220]\<rparr>"

text \<open>
  An instance of \<open>render\<close> for the examples, and two baseline lists for the analyser: one
  with a late direct Spirit flight, a connecting morning flight and a direct afternoon
  flight; and one, not in price order, whose first direct flight costs $300, whose second
  costs $200, and whose connecting flight costs $250.
\<close>

definition exRender :: "explanation_note \<Rightarrow> string" where
  "exRender n =
     (case n of
        RedEyeSave t a \<Rightarrow> ''Red-eye - Save''
      | RedEyeOption t \<Rightarrow> ''Red-eye option''
      | EarlyBirdSave t a \<Rightarrow> ''Early bird - Save''
      | EarlyDeparture t \<Rightarrow> ''Early departure''
      | LayoverSave ap h a w \<Rightarrow> ''1 stop in '' @ ap @ '' - Save''
      | LayoverVia ap h \<Rightarrow> ''Via '' @ ap
      | BudgetSave al a \<Rightarrow> al @ '' - Save''
      | BudgetOption al \<Rightarrow> al @ '' budget option''
      | ConnectingSave n a pct \<Rightarrow> ''stops - Save'')"

definition exDirectNo :: "string \<Rightarrow> string \<Rightarrow> string \<Rightarrow> int \<Rightarrow> serp_flight" where
  "exDirectNo al fn t p = exFlight [exLeg ''JFK'' ''LAX'' t al fn None] p"

definition exBaseline :: "serp_flight list" where
  "exBaseline =
     [exDirectNo ''Spirit'' ''NK 9'' ''2026-08-24T23:30'' 120,
      exFlight [exLeg ''JFK'' ''LAX'' ''2026-08-24T07:00'' ''Delta'' ''DL 7''
                  (Some [\<lparr>lo_duration = 95, lo_name = ''ORD'', lo_id = ''ORD''\<rparr>])] 90,
      exDirectNo ''United'' ''UA 1'' ''2026-08-24T13:00'' 150]"

definition exUnsorted :: "serp_flight list" where
  "exUnsorted =
     [exDirectNo ''United'' ''UA 1'' ''2026-08-24T13:00'' 300,
      exDirectNo ''American'' ''AA 2'' ''2026-08-24T15:00'' 200,
      exFlight [exLeg ''JFK'' ''LAX'' ''2026-08-24T10:00'' ''Delta'' ''DL 7''
                  (Some [\<lparr>lo_duration = 95, lo_name = ''ORD'', lo_id = ''ORD''\<rparr>])] 250]"

section \<open>Properties of the budgeted caller\<close>

lemma smartSearchFlights_exhausted:
  "apiCallCount s \<ge> 15 \<Longrightarrow> smartSearchFlights p a b c d r s = ([], s)"
  by (simp add: smartSearchFlights_def MAX_API_CALLS_PER_SEARCH_def)

lemma smartSearchFlights_step:
  assumes "smartSearchFlights p a b c d r s = (res, s')"
    and "length (providerCalls s) + (15 - apiCallCount s) \<le> n"
  shows "length (providerCalls s') + (15 - apiCallCount s') \<le> n"
  using assms
  by (auto simp: smartSearchFlights_def MAX_API_CALLS_PER_SEARCH_def Let_def
      split: if_splits sum.splits)

lemma runSearches_budget:
  "length (providerCalls s) + (15 - apiCallCount s) \<le> n \<Longrightarrow>
   length (providerCalls (snd (runSearches p cs s))) + (15 - apiCallCount (snd (runSearches p cs s))) \<le> n"
proof (induction cs arbitrary: s)
  case Nil
  then show ?case by simp
next
  case (Cons c cs)
  obtain a b d e r where c: "c = ((a, b, d, e), r)"
    by (metis prod.exhaust)
  obtain res s' where st: "smartSearchFlights p a b d e r s = (res, s')"
    by (metis prod.exhaust)
  have "length (providerCalls s') + (15 - apiCallCount s') \<le> n"
    using smartSearchFlights_step [OF st Cons.prems] .
  from Cons.IH [OF this] show ?case
    by (auto simp: c st split: prod.splits)
qed

text \<open>
  C1. Starting from a counter of 0 (the state after \<^verbatim>\<open>resetApiCallCount\<close>), any sequence
  of invocations of \<^verbatim>\<open>smartSearchFlights\<close> sends at most 15 further calls to the
  provider; and in every state whose counter has reached 15 an invocation returns the
  empty list and leaves the state, the provider's call log included, as it was.
\<close>

theorem smartSearchFlights_budget:
  "length (providerCalls (snd (runSearches p cs (resetApiCallCount s))))
     \<le> length (providerCalls s) + 15
   \<and> (\<forall>s'. apiCallCount s' \<ge> 15 \<longrightarrow>
         smartSearchFlights p orig dest date returnDate reason s' = ([], s'))"
proof
  have "length (providerCalls (resetApiCallCount s)) + (15 - apiCallCount (resetApiCallCount s))
          \<le> length (providerCalls s) + 15"
    by (simp add: resetApiCallCount_def)
  from runSearches_budget [OF this]
  show "length (providerCalls (snd (runSearches p cs (resetApiCallCount s))))
          \<le> length (providerCalls s) + 15"
    by (meson add_leE)
next
  show "\<forall>s'. apiCallCount s' \<ge> 15 \<longrightarrow>
          smartSearchFlights p orig dest date returnDate reason s' = ([], s')"
    by (simp add: smartSearchFlights_exhausted)
qed

theorem smartSearchFlights_budget_witness:
  "length (providerCalls (snd (runSearches exProvider exCalls (resetApiCallCount exStart))))
     \<le> length (providerCalls exStart) + 15
   \<and> length (providerCalls (snd (runSearches exProvider exCalls (resetApiCallCount exStart)))) = 15
   \<and> apiCallCount (snd (runSearches exProvider exCalls (resetApiCallCount exStart))) \<ge> 15
   \<and> smartSearchFlights exProvider ''JFK'' ''LAX'' ''2026-08-24'' None ''search''
         (snd (runSearches exProvider exCalls (resetApiCallCount exStart)))
       = ([], snd (runSearches exProvider exCalls (resetApiCallCount exStart)))"
proof -
  have full: "apiCallCount (snd (runSearches exProvider exCalls (resetApiCallCount exStart))) \<ge> 15"
    by code_simp
  have reached: "length (providerCalls (snd (runSearches exProvider exCalls (resetApiCallCount exStart)))) = 15"
    by code_simp
  show ?thesis
    using smartSearchFlights_budget [of exProvider exCalls exStart "''JFK''" "''LAX''"
        "''2026-08-24''" None "''search''"] full reached
    by blast
qed

text \<open>
  C8. When the provider's call throws, \<^verbatim>\<open>smartSearchFlights\<close> returns the empty list:
  the error is caught and does not reach the caller.
\<close>

theorem smartSearchFlights_absorbs_failure:
  "searchGoogleFlights (providerCalls s) (orig, dest, date, returnDate) = Inl err \<Longrightarrow>
   fst (smartSearchFlights searchGoogleFlights orig dest date returnDate reason s) = []"
  by (simp add: smartSearchFlights_def Let_def)

theorem smartSearchFlights_absorbs_failure_witness:
  "exFailing (providerCalls exStart) (''JFK'', ''LAX'', ''2026-08-24'', None)
     = Inl ''Error: SerpAPI error: 500''
   \<and> apiCallCount exStart < 15
   \<and> fst (smartSearchFlights exFailing ''JFK'' ''LAX'' ''2026-08-24'' None ''search'' exStart) = []"
  using smartSearchFlights_absorbs_failure [of exFailing exStart "''JFK''" "''LAX''"
      "''2026-08-24''" None "''Error: SerpAPI error: 500''" "''search''"]
  by (simp add: exFailing_def exStart_def)

section \<open>Properties of the curator\<close>

lemma addSpecial_inv: "selInv st \<Longrightarrow> selInv (addSpecial d st)"
  by (cases st) (auto simp: addSpecial_def selInv_def Let_def)

lemma fold_addSpecial_inv: "selInv st \<Longrightarrow> selInv (fold addSpecial ds st)"
  by (induction ds arbitrary: st) (simp_all add: addSpecial_inv)

lemma addWhileBelow40_inv:
  "selInv (tops, added) \<Longrightarrow> selInv (addWhileBelow40 ds (tops, added))"
proof (induction ds "(tops, added)" arbitrary: tops added rule: addWhileBelow40.induct)
  case (1 tops added)
  then show ?case by simp
next
  case (2 d ds tops added)
  show ?case
  proof (cases "length tops < 40")
    case False
    with "2.prems" show ?thesis by simp
  next
    case True
    show ?thesis
    proof (cases "getFlightKey d \<in> added")
      case True
      with \<open>length tops < 40\<close> "2.hyps"(2) "2.prems" show ?thesis by simp
    next
      case False
      have "selInv (tops @ [d], insert (getFlightKey d) added)"
        using "2.prems" False True by (auto simp: selInv_def)
      with \<open>length tops < 40\<close> False "2.hyps"(1) show ?thesis by simp
    qed
  qed
qed

lemma addBestOf_inv: "selInv st \<Longrightarrow> selInv (addBestOf period st)"
  by (cases st) (simp add: addBestOf_def addWhileBelow40_inv)

lemma fold_addBestOf_inv: "selInv st \<Longrightarrow> selInv (fold addBestOf periods st)"
  by (induction periods arbitrary: st) (simp_all add: addBestOf_inv)

lemma fillPriceVariety_inv:
  "selInv (tops, added) \<Longrightarrow>
   selInv (fst (fillPriceVariety ds (tops, added, seen)),
           fst (snd (fillPriceVariety ds (tops, added, seen))))"
proof (induction ds "(tops, added, seen)" arbitrary: tops added seen rule: fillPriceVariety.induct)
  case (1 tops added seen)
  then show ?case by simp
next
  case (2 d ds tops added seen)
  show ?case
  proof (cases "length tops \<ge> 35")
    case True
    with "2.prems" show ?thesis by simp
  next
    case False
    show ?thesis
    proof (cases "pricePointOf d \<notin> seen \<and> getFlightKey d \<notin> added")
      case True
      have "selInv (tops @ [d], insert (getFlightKey d) added)"
        using "2.prems" True False by (auto simp: selInv_def)
      with False True "2.hyps"(1) show ?thesis by (simp add: Let_def)
    next
      case nope: False
      with False "2.hyps"(2) "2.prems" show ?thesis by (auto simp: Let_def)
    qed
  qed
qed

lemma curate_selected:
  "\<exists>sel. curate sortedDeals byTime airlines specials = sortByPrice sel
         \<and> distinct (map getFlightKey sel) \<and> length sel \<le> 40"
proof -
  define st1 where "st1 = (case sortedDeals of [] \<Rightarrow> ([], {}) | s0 # _ \<Rightarrow> ([s0], {getFlightKey s0}))"
  define st4 where "st4 = fold addBestOf (map snd airlines)
      (fold addBestOf [morning byTime, afternoon byTime, evening byTime, overnight byTime]
        (fold addSpecial specials st1))"
  define st5 where "st5 = fillPriceVariety sortedDeals (fst st4, snd st4, set (map pricePointOf (fst st4)))"
  have "selInv st1"
    by (simp add: st1_def selInv_def split: list.splits)
  then have "selInv st4"
    unfolding st4_def by (intro fold_addBestOf_inv fold_addSpecial_inv)
  then have "selInv (fst st4, snd st4)" by simp
  then have "selInv (fst st5, fst (snd st5))"
    unfolding st5_def by (rule fillPriceVariety_inv)
  moreover have "curate sortedDeals byTime airlines specials = sortByPrice (fst st5)"
    by (simp add: curate_def Let_def st5_def st4_def st1_def)
  ultimately show ?thesis
    by (auto simp: selInv_def)
qed

lemma distinct_map_coarser:
  assumes d: "distinct (map f xs)"
    and c: "\<And>a b. g a = g b \<Longrightarrow> f a = f b"
  shows "distinct (map g xs)"
proof -
  have inj: "inj_on f (set xs)" and dx: "distinct xs"
    using d by (simp_all add: distinct_map)
  have "inj_on g (set xs)"
  proof (rule inj_onI)
    fix a b
    assume a: "a \<in> set xs" and b: "b \<in> set xs" and g: "g a = g b"
    from g have "f a = f b" by (rule c)
    from inj_onD [OF inj this a b] show "a = b" .
  qed
  with dx show ?thesis by (simp add: distinct_map)
qed

lemma distinct_map_sortByPrice:
  "distinct (map f xs) \<Longrightarrow> distinct (map f (sortByPrice xs))"
  by (simp add: distinct_map sortByPrice_def)

lemma getFlightKey_dedupKey: "dedupKey a = dedupKey b \<Longrightarrow> getFlightKey a = getFlightKey b"
  by (auto simp: dedupKey_def getFlightKey_def split: list.splits)

text \<open>
  C2 (amended). The curated list holds at most 40 deals: steps 3 and 4 select while fewer
  than 40 deals are selected, and only step 5 stops at 35.
\<close>

theorem topDeals_bound: "length (topDeals (groupAndCurateResults getHours deals)) \<le> 40"
proof -
  obtain sel where "curate (sortByPrice deals) (fold (groupByTime getHours) deals emptyByTime)
      (fold groupByAirline deals []) (filter (\<lambda>d. strategy d \<noteq> Standard) deals) = sortByPrice sel"
    and "length sel \<le> 40"
    using curate_selected by blast
  then show ?thesis
    by (simp add: groupAndCurateResults_def Let_def sortByPrice_def)
qed

text \<open>
  C2 as stated, at most 35 deals, fails: on the 36 example deals the cheapest and the other
  29 hidden-city deals fill the list to 30, and the six standard deals of the first three
  time periods are then added, because step 3 runs while fewer than 40 are selected.
\<close>

theorem topDeals_exceeds_35:
  "length exManyDeals = 36
   \<and> length (topDeals (groupAndCurateResults isoHour exManyDeals)) = 36
   \<and> \<not> length (topDeals (groupAndCurateResults isoHour exManyDeals)) \<le> 35"
  by code_simp

text \<open>
  The bound of 40 is reached: of the 41 example deals, all with different keys, the
  selection keeps 40.
\<close>

lemma topDeals_bound_attained:
  "length exFortyDeals = 41 \<and> length (topDeals (groupAndCurateResults isoHour exFortyDeals)) = 40"
  by code_simp

text \<open>C3. The curated list is sorted by price, non-decreasing.\<close>

theorem topDeals_sorted: "sorted (map priceUsd (topDeals (groupAndCurateResults getHours deals)))"
proof -
  obtain sel where "curate (sortByPrice deals) (fold (groupByTime getHours) deals emptyByTime)
      (fold groupByAirline deals []) (filter (\<lambda>d. strategy d \<noteq> Standard) deals) = sortByPrice sel"
    using curate_selected by blast
  then show ?thesis
    by (simp add: groupAndCurateResults_def Let_def sortByPrice_def)
qed

theorem topDeals_sorted_witness:
  "map priceUsd (topDeals (groupAndCurateResults isoHour exMixed)) = [150, 180]
   \<and> sorted (map priceUsd (topDeals (groupAndCurateResults isoHour exMixed)))"
proof -
  have "map priceUsd (topDeals (groupAndCurateResults isoHour exMixed)) = [150, 180]"
    by code_simp
  with topDeals_sorted [of isoHour exMixed] show ?thesis by simp
qed

text \<open>
  C4. No two deals of the curated list have the same deduplication key, neither as the
  triple of the specification nor as the string that \<^verbatim>\<open>getFlightKey\<close> builds.
\<close>

theorem topDeals_distinct_keys:
  "distinct (map dedupKey (topDeals (groupAndCurateResults getHours deals)))
   \<and> distinct (map getFlightKey (topDeals (groupAndCurateResults getHours deals)))"
proof -
  obtain sel where c: "curate (sortByPrice deals) (fold (groupByTime getHours) deals emptyByTime)
      (fold groupByAirline deals []) (filter (\<lambda>d. strategy d \<noteq> Standard) deals) = sortByPrice sel"
    and d: "distinct (map getFlightKey sel)"
    using curate_selected by blast
  have k: "distinct (map getFlightKey (topDeals (groupAndCurateResults getHours deals)))"
    using c distinct_map_sortByPrice [OF d]
    by (simp add: groupAndCurateResults_def Let_def)
  from distinct_map_coarser [OF k getFlightKey_dedupKey] k show ?thesis
    by simp
qed

theorem topDeals_distinct_keys_witness:
  "map getFlightKey exMixed
     = [''United-U1-2026-08-24T07:00'', ''United-U1-2026-08-24T07:00'', ''Delta-D1-2026-08-24T13:00'']
   \<and> map getFlightKey (topDeals (groupAndCurateResults isoHour exMixed))
     = [''Delta-D1-2026-08-24T13:00'', ''United-U1-2026-08-24T07:00'']
   \<and> distinct (map dedupKey (topDeals (groupAndCurateResults isoHour exMixed)))"
proof -
  have "map getFlightKey exMixed
     = [''United-U1-2026-08-24T07:00'', ''United-U1-2026-08-24T07:00'', ''Delta-D1-2026-08-24T13:00'']"
    by code_simp
  moreover have "map getFlightKey (topDeals (groupAndCurateResults isoHour exMixed))
     = [''Delta-D1-2026-08-24T13:00'', ''United-U1-2026-08-24T07:00'']"
    by code_simp
  ultimately show ?thesis
    using topDeals_distinct_keys [of isoHour exMixed] by simp
qed

text \<open>
  C10. On the empty list the curator returns the empty structure: no best deal, empty
  time-of-day, airline and strategy groups, no special deals and no curated deals.
\<close>

theorem groupAndCurateResults_empty:
  "groupAndCurateResults getHours [] =
     \<lparr>bestOverall = None,
      cheapestByTime = \<lparr>morning = [], afternoon = [], evening = [], overnight = []\<rparr>,
      byAirline = [], byStrategy = [], specialDeals = [], topDeals = []\<rparr>"
  by (simp add: groupAndCurateResults_def emptyByTime_def)

section \<open>Properties of the nearby-airport strategy\<close>

text \<open>
  The percentage follows the double-precision arithmetic: \<^verbatim>\<open>(57 / 200) * 100\<close> is
  \<^verbatim>\<open>28.499999999999996\<close> and rounds to 28, while \<^verbatim>\<open>(31 / 200) * 100\<close> is \<^verbatim>\<open>15.5\<close>
  and rounds to 16.
\<close>

lemma roundedPercent_examples:
  "toDouble (toDouble (57 / 200) * 100) = 8022036836253695 / 281474976710656
   \<and> roundedPercent 57 200 = 28 \<and> roundedPercent 31 200 = 16 \<and> roundedPercent 50 300 = 17"
  by code_simp

lemma below85_int: "below85 p b = (100 * p < 85 * b)"
proof -
  have "((of_int p :: rat) < of_int b * (85 / 100)) = ((of_int p :: rat) * 100 < of_int b * 85)"
    by (simp add: field_simps)
  also have "\<dots> = ((of_int (p * 100) :: rat) < of_int (b * 85))"
    by simp
  also have "\<dots> = (p * 100 < b * 85)"
    by (rule of_int_less_iff)
  finally show ?thesis
    by (simp add: below85_def mult.commute)
qed

lemma isDirect_iff:
  "isDirect f = (length (flights f) = 1 \<and> (\<forall>l \<in> set (flights f). layovers l = None \<or> layovers l = Some []))"
  by (auto simp: isDirect_def split: list.splits option.splits)

lemma checkAltOrigins_deals:
  "\<forall>d \<in> set deals. \<exists>f. opp_flights d = [f] \<and> isDirect f \<and> below85 (price f) basePrice \<Longrightarrow>
   \<forall>d \<in> set (fst (checkAltOrigins p orig dest depDate basePrice alts (deals, s))).
      \<exists>f. opp_flights d = [f] \<and> isDirect f \<and> below85 (price f) basePrice"
proof (induction alts arbitrary: deals s)
  case Nil
  then show ?case by simp
next
  case (Cons a alts)
  show ?case
    using Cons.prems
    by (auto simp: Let_def split: prod.splits list.splits intro!: Cons.IH)
qed

lemma checkAltDests_deals:
  "\<forall>d \<in> set deals. \<exists>f. opp_flights d = [f] \<and> isDirect f \<and> below85 (price f) basePrice \<Longrightarrow>
   \<forall>d \<in> set (fst (checkAltDests p orig dest depDate basePrice alts (deals, s))).
      \<exists>f. opp_flights d = [f] \<and> isDirect f \<and> below85 (price f) basePrice"
proof (induction alts arbitrary: deals s)
  case Nil
  then show ?case by simp
next
  case (Cons a alts)
  show ?case
    using Cons.prems
    by (auto simp: Let_def split: prod.splits list.splits intro!: Cons.IH)
qed

lemma findNearbyAirportDeals_deals:
  assumes "findNearbyAirportDeals p orig dest depDate basePrice s = (Inr deals, s')"
  shows "\<forall>d \<in> set deals. \<exists>f. opp_flights d = [f] \<and> isDirect f \<and> below85 (price f) basePrice"
proof (cases "basePrice < 70")
  case True
  with assms show ?thesis by (simp add: findNearbyAirportDeals_def)
next
  case False
  from assms False obtain oas das deals1 s1 where
    o: "checkAltOrigins p orig dest depDate basePrice oas ([], s) = (deals1, s1)"
    and d: "checkAltDests p orig dest depDate basePrice das (deals1, s1) = (deals, s')"
    by (auto simp: findNearbyAirportDeals_def Let_def
        split: sum.splits alternatives.splits prod.splits)
  have "\<forall>d \<in> set deals1. \<exists>f. opp_flights d = [f] \<and> isDirect f \<and> below85 (price f) basePrice"
    using checkAltOrigins_deals [of "[]" basePrice p orig dest depDate oas s] o by simp
  from checkAltDests_deals [OF this, of p orig dest depDate das s1] d
  show ?thesis by simp
qed

text \<open>
  C5. When \<^verbatim>\<open>findNearbyAirportDeals\<close> returns deals, each of them carries exactly one
  itinerary, that itinerary has a single leg whose layovers are absent or empty, and its
  price is strictly below 85% of \<open>basePrice\<close>; and when \<open>basePrice < 70\<close> the function
  returns no deals and issues no call.
\<close>

theorem findNearbyAirportDeals_direct_and_cheaper:
  "(findNearbyAirportDeals p orig dest depDate basePrice s = (Inr deals, s') \<longrightarrow>
      (\<forall>d \<in> set deals.
         \<exists>f. opp_flights d = [f] \<and> length (flights f) = 1
            \<and> (\<forall>l \<in> set (flights f). layovers l = None \<or> layovers l = Some [])
            \<and> 100 * price f < 85 * basePrice))
   \<and> (basePrice < 70 \<longrightarrow>
        findNearbyAirportDeals p orig dest depDate basePrice s = (Inr [], s))"
proof (intro conjI impI)
  assume "findNearbyAirportDeals p orig dest depDate basePrice s = (Inr deals, s')"
  from findNearbyAirportDeals_deals [OF this]
  show "\<forall>d \<in> set deals.
         \<exists>f. opp_flights d = [f] \<and> length (flights f) = 1
            \<and> (\<forall>l \<in> set (flights f). layovers l = None \<or> layovers l = Some [])
            \<and> 100 * price f < 85 * basePrice"
    by (simp add: isDirect_iff below85_int)
next
  assume "basePrice < 70"
  then show "findNearbyAirportDeals p orig dest depDate basePrice s = (Inr [], s)"
    by (simp add: findNearbyAirportDeals_def)
qed

theorem findNearbyAirportDeals_direct_and_cheaper_witness:
  "fst (findNearbyAirportDeals exNearbyProvider ''JFK'' ''LAX'' ''2026-08-24'' 300 exFresh)
     = Inr [exNearbyDeal]
   \<and> (\<exists>f. opp_flights exNearbyDeal = [f] \<and> length (flights f) = 1
          \<and> (\<forall>l \<in> set (flights f). layovers l = None \<or> layovers l = Some [])
          \<and> 100 * price f < 85 * 300)
   \<and> findNearbyAirportDeals exNearbyProvider ''JFK'' ''LAX'' ''2026-08-24'' 69 exFresh
       = (Inr [], exFresh)"
proof -
  have ev: "fst (findNearbyAirportDeals exNearbyProvider ''JFK'' ''LAX'' ''2026-08-24'' 300 exFresh)
        = Inr [exNearbyDeal]"
    by code_simp
  then obtain s' where
    "findNearbyAirportDeals exNearbyProvider ''JFK'' ''LAX'' ''2026-08-24'' 300 exFresh
       = (Inr [exNearbyDeal], s')"
    by (metis prod.collapse)
  with findNearbyAirportDeals_direct_and_cheaper
         [of exNearbyProvider "''JFK''" "''LAX''" "''2026-08-24''" 300 exFresh "[exNearbyDeal]" s']
       findNearbyAirportDeals_direct_and_cheaper
         [of exNearbyProvider "''JFK''" "''LAX''" "''2026-08-24''" 69 exFresh "[]" exFresh]
       ev
  show ?thesis by simp
qed

section \<open>Properties of the hidden-city search\<close>

lemma hiddenCitySearches_results:
  "Some r \<in> set (hiddenCitySearches p orig dest depDate bs issued) \<Longrightarrow>
   beyondDestination r \<in> set bs \<and> hc_flights r \<noteq> [] \<and> (\<forall>f \<in> set (hc_flights r). hasLayoverAt dest f)"
proof (induction bs arbitrary: issued)
  case Nil
  then show ?case by simp
next
  case (Cons b bs)
  from Cons.prems show ?case
    by (auto simp: Let_def split: sum.splits if_splits dest!: Cons.IH)
qed

lemma hasLayoverAt_iff:
  "hasLayoverAt dest f =
     (\<exists>l \<in> set (flights f). \<exists>los. layovers l = Some los \<and> (\<exists>lo \<in> set los. lo_id lo = dest))"
proof -
  have h: "\<And>l. (case layovers l of None \<Rightarrow> False | Some ls \<Rightarrow> \<exists>lo \<in> set ls. lo_id lo = dest)
          = (\<exists>los. layovers l = Some los \<and> (\<exists>lo \<in> set los. lo_id lo = dest))"
    by (simp split: option.splits)
  show ?thesis
    unfolding hasLayoverAt_def list_ex_iff h ..
qed

lemma set_map_filter_id: "set (List.map_filter (\<lambda>r. r) xs) = {y. Some y \<in> set xs}"
  by (induction xs) (auto simp: List.map_filter_simps split: option.splits)

text \<open>
  C6. Every result of the hidden-city search names a beyond-destination different from
  the query's destination, and every flight in it has a leg with a layover whose airport
  id is the query's destination.
\<close>

theorem searchHiddenCityFlights_layover_at_destination:
  "\<forall>r \<in> set (searchHiddenCityFlights p orig dest depDate).
     beyondDestination r \<noteq> dest
     \<and> (\<forall>f \<in> set (hc_flights r).
          \<exists>l \<in> set (flights f). \<exists>los. layovers l = Some los \<and> (\<exists>lo \<in> set los. lo_id lo = dest))"
proof
  fix r
  assume "r \<in> set (searchHiddenCityFlights p orig dest depDate)"
  then have "Some r \<in> set (hiddenCitySearches p orig dest depDate
      (take 5 (filter (\<lambda>hub. hub \<noteq> orig \<and> hub \<noteq> dest) majorHubs)) [])"
    by (simp add: searchHiddenCityFlights_def Let_def set_map_filter_id)
  from hiddenCitySearches_results [OF this]
  have b: "beyondDestination r \<in> set (take 5 (filter (\<lambda>hub. hub \<noteq> orig \<and> hub \<noteq> dest) majorHubs))"
    and f: "\<forall>f \<in> set (hc_flights r). hasLayoverAt dest f"
    by simp_all
  from b have "beyondDestination r \<in> set (filter (\<lambda>hub. hub \<noteq> orig \<and> hub \<noteq> dest) majorHubs)"
    by (rule in_set_takeD)
  then have "beyondDestination r \<noteq> dest" by simp
  with f show "beyondDestination r \<noteq> dest
     \<and> (\<forall>f \<in> set (hc_flights r).
          \<exists>l \<in> set (flights f). \<exists>los. layovers l = Some los \<and> (\<exists>lo \<in> set los. lo_id lo = dest))"
    by (simp add: hasLayoverAt_iff)
qed

theorem searchHiddenCityFlights_layover_at_destination_witness:
  "searchHiddenCityFlights exHiddenProvider ''JFK'' ''LAX'' ''2026-08-24'' = [exHiddenResult]
   \<and> beyondDestination exHiddenResult \<noteq> ''LAX''
   \<and> (\<exists>l \<in> set (flights (exConnecting ''JFK'' ''LAX'' ''SFO'' 220)).
         \<exists>los. layovers l = Some los \<and> (\<exists>lo \<in> set los. lo_id lo = ''LAX''))"
proof -
  have ev: "searchHiddenCityFlights exHiddenProvider ''JFK'' ''LAX'' ''2026-08-24'' = [exHiddenResult]"
    by code_simp
  have hc: "hc_flights exHiddenResult = [exConnecting ''JFK'' ''LAX'' ''SFO'' 220]"
    by (simp add: exHiddenResult_def)
  from searchHiddenCityFlights_layover_at_destination
         [of exHiddenProvider "''JFK''" "''LAX''" "''2026-08-24''"] ev hc
  show ?thesis by simp
qed

section \<open>Properties of the data analyser\<close>

lemma createDeal_ok:
  "flights f \<noteq> [] \<Longrightarrow> risk \<in> {5, 10, 15} \<Longrightarrow> analyzerDealOk (createDeal f a b c e risk)"
  by (simp add: createDeal_def analyzerDealOk_def)

lemma analyzeFlight_ok:
  assumes "\<forall>d \<in> set (analysisDeals r). analyzerDealOk d"
  shows "\<forall>d \<in> set (analysisDeals (snd (analyzeFlight gh rd a b c cd av f (seen, r)))). analyzerDealOk d"
proof (cases "flights f")
  case Nil
  with assms show ?thesis by (simp add: analyzeFlight_def)
next
  case (Cons l ls)
  then have ne: "flights f \<noteq> []" by simp
  have ok: "\<And>e risk. risk \<in> {5, 10, 15} \<Longrightarrow> analyzerDealOk (createDeal f a b c e risk)"
    using ne by (rule createDeal_ok)
  show ?thesis
    using assms ok
    by (auto simp: analyzeFlight_def Cons Let_def analysisDeals_def)
qed

lemma fold_analyzeFlight_ok:
  "\<forall>d \<in> set (analysisDeals (snd st)). analyzerDealOk d \<Longrightarrow>
   \<forall>d \<in> set (analysisDeals (snd (fold (analyzeFlight gh rd a b c cd av) fs st))). analyzerDealOk d"
proof (induction fs arbitrary: st)
  case Nil
  then show ?case by simp
next
  case (Cons f fs)
  obtain seen r where st: "st = (seen, r)" by (cases st)
  have "\<forall>d \<in> set (analysisDeals (snd (analyzeFlight gh rd a b c cd av f st))). analyzerDealOk d"
    unfolding st using Cons.prems by (intro analyzeFlight_ok) (simp add: st)
  from Cons.IH [OF this] show ?case by simp
qed

lemma analyzeFlightData_ok:
  "\<forall>d \<in> set (analysisDeals (analyzeFlightData gh rd fs a b c)). analyzerDealOk d"
proof (cases fs)
  case Nil
  then show ?thesis
    by (simp add: analyzeFlightData_def emptyAnalysis_def analysisDeals_def)
next
  case (Cons f0 rest)
  have "\<forall>d \<in> set (analysisDeals (snd ({}::string set, emptyAnalysis))). analyzerDealOk d"
    by (simp add: emptyAnalysis_def analysisDeals_def)
  from fold_analyzeFlight_ok [OF this, of gh rd a b c "cheapestDirectPrice fs (price f0)" "avgPrice fs" fs]
  show ?thesis
    by (simp add: analyzeFlightData_def Cons Let_def analysisDeals_def sortByPrice_def)
qed

lemma specialDeals_filter:
  "specialDeals (groupAndCurateResults gh ds) = filter (\<lambda>d. strategy d \<noteq> Standard) ds"
  by (simp add: groupAndCurateResults_def Let_def)

text \<open>
  C9. Every deal in the five categories of an analysis has strategy \<open>Standard\<close>, a risk
  score of 5, 10 or 15 and at least one leg; hence it is not among the special deals of
  the curator, whatever list of deals the curator is given.
\<close>

theorem analyzeFlightData_deals_standard:
  "\<forall>d \<in> set (analysisDeals (analyzeFlightData getHours render fs orig dest depDate)).
      strategy d = Standard \<and> riskScore d \<in> {5, 10, 15} \<and> legs d \<noteq> []
      \<and> (\<forall>getHours' ds. d \<notin> set (specialDeals (groupAndCurateResults getHours' ds)))"
proof
  fix d
  assume "d \<in> set (analysisDeals (analyzeFlightData getHours render fs orig dest depDate))"
  with analyzeFlightData_ok [of getHours render fs orig dest depDate]
  have ok: "strategy d = Standard \<and> riskScore d \<in> {5, 10, 15} \<and> legs d \<noteq> []"
    by (simp add: analyzerDealOk_def)
  then have "d \<notin> set (specialDeals (groupAndCurateResults getHours' ds))" for getHours' ds
    by (simp add: specialDeals_filter)
  with ok show "strategy d = Standard \<and> riskScore d \<in> {5, 10, 15} \<and> legs d \<noteq> []
      \<and> (\<forall>getHours' ds. d \<notin> set (specialDeals (groupAndCurateResults getHours' ds)))"
    by blast
qed

theorem analyzeFlightData_deals_standard_witness:
  "map riskScore (analysisDeals (analyzeFlightData isoHour exRender exBaseline ''JFK'' ''LAX'' ''2026-08-24''))
       = [5, 10, 15, 10, 5]
   \<and> specialDeals (groupAndCurateResults isoHour
        (analysisDeals (analyzeFlightData isoHour exRender exBaseline ''JFK'' ''LAX'' ''2026-08-24'')
           @ [exDeal HiddenCity 180 ''U1'' ''2026-08-24T07:00'']))
       = [exDeal HiddenCity 180 ''U1'' ''2026-08-24T07:00'']
   \<and> list_all
        (\<lambda>d. strategy d = Standard \<and> riskScore d \<in> {5, 10, 15} \<and> legs d \<noteq> []
           \<and> d \<notin> set (specialDeals (groupAndCurateResults isoHour
                 (analysisDeals (analyzeFlightData isoHour exRender exBaseline ''JFK'' ''LAX'' ''2026-08-24'')
                    @ [exDeal HiddenCity 180 ''U1'' ''2026-08-24T07:00'']))))
        (analysisDeals (analyzeFlightData isoHour exRender exBaseline ''JFK'' ''LAX'' ''2026-08-24''))"
proof -
  have ev: "map riskScore (analysisDeals (analyzeFlightData isoHour exRender exBaseline ''JFK'' ''LAX'' ''2026-08-24''))
       = [5, 10, 15, 10, 5]"
    by code_simp
  have mixed: "specialDeals (groupAndCurateResults isoHour
        (analysisDeals (analyzeFlightData isoHour exRender exBaseline ''JFK'' ''LAX'' ''2026-08-24'')
           @ [exDeal HiddenCity 180 ''U1'' ''2026-08-24T07:00'']))
       = [exDeal HiddenCity 180 ''U1'' ''2026-08-24T07:00'']"
    by code_simp
  from analyzeFlightData_deals_standard
         [of isoHour exRender exBaseline "''JFK''" "''LAX''" "''2026-08-24''"]
  have "list_all
        (\<lambda>d. strategy d = Standard \<and> riskScore d \<in> {5, 10, 15} \<and> legs d \<noteq> []
           \<and> d \<notin> set (specialDeals (groupAndCurateResults isoHour
                 (analysisDeals (analyzeFlightData isoHour exRender exBaseline ''JFK'' ''LAX'' ''2026-08-24'')
                    @ [exDeal HiddenCity 180 ''U1'' ''2026-08-24T07:00'']))))
        (analysisDeals (analyzeFlightData isoHour exRender exBaseline ''JFK'' ''LAX'' ''2026-08-24''))"
    unfolding list_all_iff by blast
  with ev mixed show ?thesis by blast
qed

text \<open>
  C7. The claim is that \<^verbatim>\<open>cheapestDirectPrice\<close> is the cheapest direct price of the input.
  The code takes the price of the first direct flight in input order. On the second
  baseline the direct prices are $300 and $200, the value used is 300, and the $250
  connecting flight is advertised as saving $50 (17%) although a direct flight costs $200.
\<close>

theorem cheapestDirectPrice_is_first_direct:
  "map price (filter isDirect exUnsorted) = [300, 200]
   \<and> Min (set (map price (filter isDirect exUnsorted))) = 200
   \<and> cheapestDirectPrice exUnsorted (price (hd exUnsorted)) = 300
   \<and> (\<forall>render. map (\<lambda>d. (priceUsd d, explanation d))
          (connectingDeals (analyzeFlightData isoHour render exUnsorted ''JFK'' ''LAX'' ''2026-08-24''))
        = [(250, render (ConnectingSave 1 50 (Some 17)))])"
proof -
  have directs: "map price (filter isDirect exUnsorted) = [300, 200]"
    by code_simp
  have least: "Min (set (map price (filter isDirect exUnsorted))) = 200"
    by code_simp
  have used: "cheapestDirectPrice exUnsorted (price (hd exUnsorted)) = 300"
    by code_simp
  have shown: "map (\<lambda>d. (priceUsd d, explanation d))
          (connectingDeals (analyzeFlightData isoHour render exUnsorted ''JFK'' ''LAX'' ''2026-08-24''))
        = [(250, render (ConnectingSave 1 50 (Some 17)))]" for render
    by code_simp
  from directs least used shown show ?thesis
    by blast
qed

text \<open>
  What does hold: with no direct flight the value is \<open>basePrice\<close>, and on a list in
  ascending price order without zero prices it is the cheapest direct price.
\<close>

lemma cheapestDirectPrice_no_direct:
  "filter isDirect fs = [] \<Longrightarrow> cheapestDirectPrice fs b = b"
  by (simp add: cheapestDirectPrice_def)

lemma cheapestDirectPrice_sorted:
  assumes s: "sorted (map price fs)"
    and ne: "filter isDirect fs \<noteq> []"
    and pos: "\<forall>f \<in> set fs. price f \<noteq> 0"
  shows "cheapestDirectPrice fs b = Min (price ` set (filter isDirect fs))"
proof -
  obtain d ds where ds: "filter isDirect fs = d # ds"
    using ne by (cases "filter isDirect fs") auto
  have "sorted (map price (filter isDirect fs))"
    using s by (rule sorted_filter)
  then have le: "\<forall>x \<in> set ds. price d \<le> price x"
    by (simp add: ds)
  have "d \<in> set (filter isDirect fs)"
    by (simp add: ds)
  then have "d \<in> set fs"
    by simp
  with pos have "price d \<noteq> 0" by blast
  then have "cheapestDirectPrice fs b = price d"
    by (simp add: cheapestDirectPrice_def ds)
  moreover have "Min (price ` set (d # ds)) = price d"
    using le by (intro Min_eqI) auto
  ultimately show ?thesis by (simp add: ds)
qed

end
